theory Spec2Isabelle
  imports Main "HOL-Library.Word"
begin

section \<open>JavaScript strings\<close>

text \<open>
  A JavaScript string is a sequence of 16-bit code units. Literals of the source are
  written \<open>js ''...''\<close>; they are all ASCII except for two pictographs of the answer
  template, which are given as their surrogate pairs.
\<close>

type_synonym jsstring = "16 word list"

definition js :: "string \<Rightarrow> jsstring" where
  "js s = map of_char s"

text \<open>
  \<open>String.prototype.trim\<close> removes the code units of WhiteSpace and LineTerminator
  from both ends.
\<close>

definition white_space :: "16 word list" where
  "white_space =
     [0x0009, 0x000A, 0x000B, 0x000C, 0x000D, 0x0020, 0x00A0, 0x1680,
      0x2000, 0x2001, 0x2002, 0x2003, 0x2004, 0x2005, 0x2006, 0x2007,
      0x2008, 0x2009, 0x200A, 0x2028, 0x2029, 0x202F, 0x205F, 0x3000, 0xFEFF]"

definition is_white_space :: "16 word \<Rightarrow> bool" where
  "is_white_space c = (c \<in> set white_space)"

definition trim :: "jsstring \<Rightarrow> jsstring" where
  "trim s = rev (dropWhile is_white_space (rev (dropWhile is_white_space s)))"

text \<open>
  The decimal rendering of a non-negative integer, as template literals and \<open>+\<close> give
  for \<open>Date.now()\<close> and \<open>retries * 2\<close> (both far below \<open>1e21\<close>).
\<close>

fun number_toString :: "nat \<Rightarrow> jsstring" where
  "number_toString n =
     (if n < 10 then [of_nat (48 + n)]
      else number_toString (n div 10) @ [of_nat (48 + n mod 10)])"

declare number_toString.simps [simp del]

section \<open>The built-in Map\<close>

text \<open>
  A \<open>Map\<close> keeps its entries in insertion order; \<open>set\<close> on a key that is present
  replaces the value in place, on a new key it appends.
\<close>

fun map_set :: "'k \<Rightarrow> 'v \<Rightarrow> ('k \<times> 'v) list \<Rightarrow> ('k \<times> 'v) list" where
  "map_set k v [] = [(k, v)]"
| "map_set k v ((k', v') # m) =
     (if k = k' then (k, v) # m else (k', v') # map_set k v m)"

definition map_get :: "('k \<times> 'v) list \<Rightarrow> 'k \<Rightarrow> 'v option" where
  "map_get m k = map_of m k"

definition map_delete :: "'k \<Rightarrow> ('k \<times> 'v) list \<Rightarrow> ('k \<times> 'v) list" where
  "map_delete k m = filter (\<lambda>e. fst e \<noteq> k) m"

definition map_values :: "('k \<times> 'v) list \<Rightarrow> 'v list" where
  "map_values m = map snd m"

section \<open>questionManager.ts\<close>

datatype Status = Thinking | Error | Finished

record QuestionState =
  id_field :: jsstring
  status :: Status
  request :: jsstring
  response :: "jsstring option"
  error :: "jsstring option"
  createdAt :: nat

text \<open>
  The values of the \<open>questions\<close> map are object references: \<open>getAnswer\<close> and
  \<open>getAllQuestions\<close> hand out the stored objects themselves, and
  \<open>notifyResponseComplete\<close> and \<open>notifyError\<close> assign to their fields in place. So the
  model has a store of \<open>QuestionState\<close> objects, a reference being an index into it, next
  to the map from ids to references. Objects are never freed.
\<close>

type_synonym ref = nat

record QuestionManager =
  questions :: "(jsstring \<times> ref) list"
  store :: "QuestionState list"

definition new_QuestionManager :: QuestionManager where
  "new_QuestionManager = \<lparr>questions = [], store = []\<rparr>"

text \<open>What a holder of the reference \<open>a\<close> reads through it in the state \<open>m\<close>.\<close>

definition deref :: "QuestionManager \<Rightarrow> ref \<Rightarrow> QuestionState option" where
  "deref m a = (if a < length (store m) then Some (store m ! a) else None)"

text \<open>
  \<open>now\<close> is the value of \<open>Date.now()\<close> and \<open>rnd\<close> the value of
  \<open>Math.random().toString(36).substr(2, 9)\<close> at the call.
\<close>

definition generateQuestionId :: "nat \<Rightarrow> jsstring \<Rightarrow> jsstring" where
  "generateQuestionId now rnd = js ''q_'' @ number_toString now @ js ''_'' @ rnd"

text \<open>\<open>created\<close> is the time \<open>new Date()\<close> reads, in milliseconds.\<close>

definition submitQuestion ::
  "nat \<Rightarrow> jsstring \<Rightarrow> nat \<Rightarrow> jsstring \<Rightarrow> QuestionManager \<Rightarrow> jsstring \<times> QuestionManager" where
  "submitQuestion now rnd created text m =
     (let i = generateQuestionId now rnd;
          question = \<lparr>id_field = i, status = Thinking, request = text,
                      response = None, error = None, createdAt = created\<rparr>;
          a = length (store m)
      in (i, \<lparr>questions = map_set i a (questions m), store = store m @ [question]\<rparr>))"

definition getAnswer :: "QuestionManager \<Rightarrow> jsstring \<Rightarrow> ref option" where
  "getAnswer m questionId = map_get (questions m) questionId"

definition notifyResponseComplete ::
  "QuestionManager \<Rightarrow> jsstring \<Rightarrow> jsstring \<Rightarrow> QuestionManager" where
  "notifyResponseComplete m questionId r =
     (case map_get (questions m) questionId of
        None \<Rightarrow> m
      | Some a \<Rightarrow>
          m\<lparr>store := (store m)[a := (store m ! a)\<lparr>status := Finished, response := Some r\<rparr>]\<rparr>)"

definition notifyError ::
  "QuestionManager \<Rightarrow> jsstring \<Rightarrow> jsstring \<Rightarrow> QuestionManager" where
  "notifyError m questionId e =
     (case map_get (questions m) questionId of
        None \<Rightarrow> m
      | Some a \<Rightarrow>
          m\<lparr>store := (store m)[a := (store m ! a)\<lparr>status := Error, error := Some e\<rparr>]\<rparr>)"

definition getAllQuestions :: "QuestionManager \<Rightarrow> ref list" where
  "getAllQuestions m = map_values (questions m)"

text \<open>
  \<open>getAnswer\<close> followed by a read of the object: the Question a caller sees under an
  id in the state \<open>m\<close>.
\<close>

definition readAnswer :: "QuestionManager \<Rightarrow> jsstring \<Rightarrow> QuestionState option" where
  "readAnswer m questionId =
     (case getAnswer m questionId of None \<Rightarrow> None | Some a \<Rightarrow> deref m a)"





text \<open>The fields no operation assigns after the object is created.\<close>

definition fixed_fields :: "QuestionState \<Rightarrow> jsstring \<times> jsstring \<times> nat" where
  "fixed_fields q = (id_field q, request q, createdAt q)"

text \<open>A Ledger holding one pending Question, for the concrete instances below.\<close>

definition example_id :: jsstring where
  "example_id = generateQuestionId 1700000000000 (js ''k3x9q2m1z'')"

definition example_ledger :: QuestionManager where
  "example_ledger = snd (submitQuestion 1700000000000 (js ''k3x9q2m1z'') 1700000000001 (js ''hi'') new_QuestionManager)"

definition example_question :: QuestionState where
  "example_question =
     \<lparr>id_field = example_id, status = Thinking, request = js ''hi'',
      response = None, error = None, createdAt = 1700000000001\<rparr>"

section \<open>Calls into code outside the repository\<close>

text \<open>
  A callback or collaborator of another module either returns or throws; both leave a
  state behind. The thrown value is kept as the string it converts to.
\<close>

datatype 's outcome = Returned 's | Thrown jsstring 's

text \<open>The state a call leaves behind, however it ended.\<close>

definition outcome_state :: "'s outcome \<Rightarrow> 's" where
  "outcome_state out = (case out of Returned s \<Rightarrow> s | Thrown err s \<Rightarrow> s)"

section \<open>tuiIntegration.ts\<close>

text \<open>
  The callbacks act on the state \<open>'w\<close> of whoever registered them, and return or
  throw. No method of \<open>TuiIntegration\<close> catches what a callback throws: the exception
  leaves the method at once, and the object stays as it was at the call.
\<close>

record 'w TuiIntegrationCallbacks =
  onResponseComplete :: "(jsstring \<Rightarrow> jsstring \<Rightarrow> 'w \<Rightarrow> 'w outcome) option"
  onError :: "(jsstring \<Rightarrow> jsstring \<Rightarrow> 'w \<Rightarrow> 'w outcome) option"

text \<open>
  A registered input prompt: \<open>buffer.setText\<close> and \<open>onSubmit\<close>, both called inside the
  \<open>try\<close> of \<open>submitQuestion\<close>.
\<close>

record 'w InputPrompt =
  buffer_setText :: "jsstring \<Rightarrow> 'w \<Rightarrow> 'w outcome"
  onSubmit :: "jsstring \<Rightarrow> 'w \<Rightarrow> 'w outcome"

record 'w TuiIntegration =
  callbacks :: "'w TuiIntegrationCallbacks"
  pendingQuestions :: "(jsstring \<times> 'w InputPrompt) list"
  currentQuestionId :: "jsstring option"


definition setCallbacks ::
  "'w TuiIntegrationCallbacks \<Rightarrow> 'w TuiIntegration \<Rightarrow> 'w TuiIntegration" where
  "setCallbacks cbs t = t\<lparr>callbacks := cbs\<rparr>"

definition getCurrentQuestionId :: "'w TuiIntegration \<Rightarrow> jsstring option" where
  "getCurrentQuestionId t = currentQuestionId t"

definition registerInputPrompt ::
  "'w InputPrompt \<Rightarrow> 'w TuiIntegration \<Rightarrow> 'w TuiIntegration" where
  "registerInputPrompt p t =
     t\<lparr>pendingQuestions := map_set (js ''current'') p (pendingQuestions t)\<rparr>"

definition call_onError ::
  "'w TuiIntegration \<Rightarrow> jsstring \<Rightarrow> jsstring \<Rightarrow> 'w \<Rightarrow> 'w outcome" where
  "call_onError t questionId e w =
     (case onError (callbacks t) of None \<Rightarrow> Returned w | Some f \<Rightarrow> f questionId e w)"


text \<open>
  A method that ends with a callback call and does nothing after it: it ends as the
  callback does, with the object in the state \<open>t\<close>.
\<close>

definition ending_with :: "'t \<Rightarrow> 'w outcome \<Rightarrow> ('t \<times> 'w) outcome" where
  "ending_with t out =
     (case out of Returned w \<Rightarrow> Returned (t, w) | Thrown err w \<Rightarrow> Thrown err (t, w))"

definition TuiIntegration_submitQuestion ::
  "jsstring \<Rightarrow> jsstring \<Rightarrow> 'w TuiIntegration \<times> 'w \<Rightarrow> ('w TuiIntegration \<times> 'w) outcome" where
  "TuiIntegration_submitQuestion text questionId s =
     (let t = fst s; w = snd s in
      case map_get (pendingQuestions t) (js ''current'') of
        None \<Rightarrow> ending_with t (call_onError t questionId (js ''TUI not available'') w)
      | Some current \<Rightarrow>
          (case buffer_setText current text w of
             Thrown err w1 \<Rightarrow>
               ending_with t
                 (call_onError t questionId (js ''TUI submission failed: '' @ err) w1)
           | Returned w1 \<Rightarrow>
               (let t1 = t\<lparr>pendingQuestions := map_set questionId current (pendingQuestions t),
                           currentQuestionId := Some questionId\<rparr>
                in case onSubmit current text w1 of
                     Thrown err w2 \<Rightarrow>
                       ending_with t1
                         (call_onError t1 questionId (js ''TUI submission failed: '' @ err) w2)
                   | Returned w2 \<Rightarrow> Returned (t1, w2))))"




section \<open>The submit/poll front end (HttpServerService)\<close>

text \<open>
  The submit handler gets the trimmed text and the question id. It is a closure of the
  caller's, so it may act on the Ledger as well as on a state \<open>'e\<close> of its own.
\<close>

type_synonym 'e handler =
  "jsstring \<Rightarrow> jsstring \<Rightarrow> QuestionManager \<times> 'e \<Rightarrow> (QuestionManager \<times> 'e) outcome"

text \<open>The \<open>text\<close> member of the parsed request body.\<close>

datatype json_text = Undefined | NotAString | Str jsstring

datatype http_response =
  Json200_questionId jsstring
| Json200_answer QuestionState
| Json400
| Json404
| Json500

definition post_question ::
  "'e handler option \<Rightarrow> nat \<Rightarrow> jsstring \<Rightarrow> nat \<Rightarrow> json_text \<Rightarrow> QuestionManager \<times> 'e \<Rightarrow>
     http_response \<times> (QuestionManager \<times> 'e)" where
  "post_question onSubmitQuestion now rnd created body st =
     (case body of
        Undefined \<Rightarrow> (Json400, st)
      | NotAString \<Rightarrow> (Json400, st)
      | Str text \<Rightarrow>
          if text = [] \<or> length (trim text) = 0 then (Json400, st)
          else
            (let sub = submitQuestion now rnd created (trim text) (fst st);
                 questionId = fst sub;
                 st1 = (snd sub, snd st)
             in case onSubmitQuestion of
                  None \<Rightarrow> (Json200_questionId questionId, st1)
                | Some f \<Rightarrow>
                    (case f (trim text) questionId st1 of
                       Returned st2 \<Rightarrow> (Json200_questionId questionId, st2)
                     | Thrown err st2 \<Rightarrow> (Json500, st2))))"

text \<open>
  \<open>GET /answer/:questionId\<close> copies the fields of the Question into the response
  body.
\<close>

definition get_answer :: "QuestionManager \<Rightarrow> jsstring \<Rightarrow> http_response" where
  "get_answer m questionId =
     (if questionId = [] then Json400
      else case readAnswer m questionId of
             None \<Rightarrow> Json404
           | Some question \<Rightarrow> Json200_answer question)"

section \<open>The tool front end (mcpServerService.ts)\<close>

subsection \<open>The ask tool\<close>

text \<open>A tool call either throws an \<open>Error\<close> with a message or returns one text item.\<close>

datatype tool_result = ToolError jsstring | ToolContent jsstring

definition maxRetries :: nat where
  "maxRetries = 240"

definition pollInterval :: nat where
  "pollInterval = 2000"

text \<open>\<open>v || d\<close> for an optional string \<open>v\<close>: \<open>undefined\<close> and \<open>""\<close> are falsy.\<close>

definition or_default :: "jsstring option \<Rightarrow> jsstring \<Rightarrow> jsstring" where
  "or_default v d = (case v of None \<Rightarrow> d | Some s \<Rightarrow> if s = [] then d else s)"

fun status_string :: "Status \<Rightarrow> jsstring" where
  "status_string Thinking = js ''thinking''"
| "status_string Error = js ''error''"
| "status_string Finished = js ''finished''"

definition newline :: jsstring where
  "newline = [0x000A]"

text \<open>
  The text of the answer. \<open>toISOString\<close> is the rendering of a date, a parameter of the
  model; the two pictographs are U+1F3AF and U+1F4CA.
\<close>

definition answer_text ::
  "(nat \<Rightarrow> jsstring) \<Rightarrow> bool \<Rightarrow> jsstring \<Rightarrow> QuestionState \<Rightarrow> nat \<Rightarrow> jsstring" where
  "answer_text toISOString stream questionId question retries =
     (let streamIndicator = (if stream then js ''[STREAMED]'' else js ''[NON-STREAMED]'');
          safeResponseText = or_default (response question) (js ''No response received'')
      in [0xD83C, 0xDFAF] @ js '' Gemini TUI Response '' @ streamIndicator @ js '':''
         @ newline @ newline @ safeResponseText @ newline @ newline
         @ [0xD83D, 0xDCCA] @ js '' Metadata:'' @ newline
         @ js ''- Question ID: '' @ questionId @ newline
         @ js ''- Status: '' @ status_string (status question) @ newline
         @ js ''- Created: '' @ toISOString (createdAt question) @ newline
         @ js ''- Polling time: '' @ number_toString (retries * 2) @ js '' seconds'' @ newline
         @ js ''- Integration: Direct TUI Integration via MCP'')"

text \<open>The body of the \<open>if\<close> inside the loop: the Question is finished or failed.\<close>

definition poll_exit ::
  "(nat \<Rightarrow> jsstring) \<Rightarrow> bool \<Rightarrow> jsstring \<Rightarrow> QuestionState \<Rightarrow> nat \<Rightarrow> tool_result" where
  "poll_exit toISOString stream questionId question retries =
     (if status question = Error
      then ToolError (or_default (error question) (js ''TUI processing failed''))
      else ToolContent (answer_text toISOString stream questionId question retries))"

text \<open>
  One poll: \<open>Some\<close> of the result when \<open>getAnswer\<close> gave a Question that is finished
  or failed, \<open>None\<close> when the loop goes on.
\<close>

definition poll_once ::
  "(nat \<Rightarrow> jsstring) \<Rightarrow> bool \<Rightarrow> jsstring \<Rightarrow> nat \<Rightarrow> QuestionManager \<Rightarrow> tool_result option" where
  "poll_once toISOString stream questionId retries m =
     (case readAnswer m questionId of
        None \<Rightarrow> None
      | Some question \<Rightarrow>
          if status question = Finished \<or> status question = Error
          then Some (poll_exit toISOString stream questionId question retries)
          else None)"

text \<open>
  The polling loop. Between two polls the task sleeps for \<open>pollInterval\<close> milliseconds;
  \<open>env k\<close> is what the rest of the program does to the shared state during the sleep
  that follows poll \<open>k\<close>. The loop returns the result, the state it ends in and the time
  it asked to sleep in total.
\<close>

function poll_loop ::
  "(nat \<Rightarrow> jsstring) \<Rightarrow> (nat \<Rightarrow> QuestionManager \<times> 'e \<Rightarrow> QuestionManager \<times> 'e) \<Rightarrow> bool \<Rightarrow> jsstring \<Rightarrow>
     nat \<Rightarrow> (QuestionManager \<times> 'e) \<times> nat \<Rightarrow> tool_result \<times> (QuestionManager \<times> 'e) \<times> nat" where
  "poll_loop toISOString env stream questionId retries (st, waited) =
     (if retries < maxRetries then
        (case poll_once toISOString stream questionId retries (fst st) of
           Some result \<Rightarrow> (result, st, waited)
         | None \<Rightarrow>
             poll_loop toISOString env stream questionId (Suc retries)
               (env retries st, waited + pollInterval))
      else (ToolError (js ''TUI response timeout after 8 minutes''), st, waited))"
  by pat_completeness auto
termination
  by (relation "measure (\<lambda>(toISOString, env, stream, questionId, retries, s). maxRetries - retries)")
     auto

declare poll_loop.simps [simp del]

definition ask ::
  "(nat \<Rightarrow> jsstring) \<Rightarrow> (nat \<Rightarrow> QuestionManager \<times> 'e \<Rightarrow> QuestionManager \<times> 'e) \<Rightarrow> 'e handler option \<Rightarrow>
     nat \<Rightarrow> jsstring \<Rightarrow> nat \<Rightarrow> jsstring \<Rightarrow> bool option \<Rightarrow> QuestionManager \<times> 'e \<Rightarrow>
     tool_result \<times> (QuestionManager \<times> 'e) \<times> nat" where
  "ask toISOString env onSubmitQuestion now rnd created text stream_arg st =
     (let stream = (case stream_arg of None \<Rightarrow> True | Some b \<Rightarrow> b);
          sub = submitQuestion now rnd created text (fst st);
          questionId = fst sub;
          st1 = (snd sub, snd st)
      in case onSubmitQuestion of
           None \<Rightarrow>
             (ToolError
                (js ''MCP server not properly integrated with TUI - no submit handler set''),
              st1, 0)
         | Some f \<Rightarrow>
             (case f text questionId st1 of
                Thrown err st2 \<Rightarrow> (ToolError err, st2, 0)
              | Returned st2 \<Rightarrow> poll_loop toISOString env stream questionId 0 (st2, 0)))"

text \<open>The request handler for tool calls; \<open>args\<close> is \<open>None\<close> when no arguments came.\<close>

definition call_tool ::
  "(nat \<Rightarrow> jsstring) \<Rightarrow> (nat \<Rightarrow> QuestionManager \<times> 'e \<Rightarrow> QuestionManager \<times> 'e) \<Rightarrow> 'e handler option \<Rightarrow>
     nat \<Rightarrow> jsstring \<Rightarrow> nat \<Rightarrow> jsstring \<Rightarrow> (jsstring \<times> bool option) option \<Rightarrow> QuestionManager \<times> 'e \<Rightarrow>
     tool_result \<times> (QuestionManager \<times> 'e) \<times> nat" where
  "call_tool toISOString env onSubmitQuestion now rnd created name args st =
     (case args of
        None \<Rightarrow> (ToolError (js ''No arguments provided for tool '' @ name), st, 0)
      | Some a \<Rightarrow>
          if name = js ''ask''
          then ask toISOString env onSubmitQuestion now rnd created (fst a) (snd a) st
          else (ToolError (js ''Tool '' @ name @ js '' not found''), st, 0))"

text \<open>The shared state after \<open>k\<close> sleeps of the loop.\<close>

fun state_at :: "(nat \<Rightarrow> 's \<Rightarrow> 's) \<Rightarrow> 's \<Rightarrow> nat \<Rightarrow> 's" where
  "state_at env st 0 = st"
| "state_at env st (Suc k) = env k (state_at env st k)"

subsection \<open>Sessions\<close>

text \<open>
  \<open>transports\<close> is a plain object used as a dictionary, created by \<open>{}\<close>: reading
  \<open>transports[k]\<close> gives the own property \<open>k\<close> when there is one, and otherwise what
  the object inherits from \<open>Object.prototype\<close> under that name. The table of own
  properties maps session ids to transports (numbered).
\<close>

definition object_prototype_properties :: "jsstring list" where
  "object_prototype_properties =
     map js [''constructor'', ''__defineGetter__'', ''__defineSetter__'', ''hasOwnProperty'',
             ''__lookupGetter__'', ''__lookupSetter__'', ''isPrototypeOf'',
             ''propertyIsEnumerable'', ''toString'', ''valueOf'', ''__proto__'',
             ''toLocaleString'']"

datatype property = Transport nat | Inherited | Absent

definition get_property :: "(jsstring \<times> nat) list \<Rightarrow> jsstring \<Rightarrow> property" where
  "get_property transports k =
     (case map_of transports k of
        Some t \<Rightarrow> Transport t
      | None \<Rightarrow> if k \<in> set object_prototype_properties then Inherited else Absent)"

text \<open>
  The value of \<open>sessionId && this.transports[sessionId]\<close>; every falsy value is
  \<open>Absent\<close>. The header is \<open>None\<close> when the request has none.
\<close>

definition lookup_session :: "(jsstring \<times> nat) list \<Rightarrow> jsstring option \<Rightarrow> property" where
  "lookup_session transports sessionId =
     (case sessionId of
        None \<Rightarrow> Absent
      | Some s \<Rightarrow> if s = [] then Absent else get_property transports s)"

text \<open>
  What a route answers. \<open>Handled_by t\<close>: the request went to \<open>handleRequest\<close> of the
  transport \<open>t\<close>. \<open>Rejected_TypeError\<close>: the \<open>async\<close> route handler ends in a rejected
  promise, with the \<open>TypeError\<close> of calling \<open>handleRequest\<close> on a value that has no
  such method, and no \<open>catch\<close> around it.
\<close>

datatype mcp_response =
  Handled_by nat
| Session_created
| Status400_json
| Status400_text
| Status500_json
| Status500_text
| Rejected_TypeError

definition post_mcp :: "(jsstring \<times> nat) list \<Rightarrow> jsstring option \<Rightarrow> bool \<Rightarrow> mcp_response" where
  "post_mcp transports sessionId isInitializeRequest =
     (case lookup_session transports sessionId of
        Transport t \<Rightarrow> Handled_by t
      | Inherited \<Rightarrow> Status500_json
      | Absent \<Rightarrow>
          if (sessionId = None \<or> sessionId = Some []) \<and> isInitializeRequest
          then Session_created
          else Status400_json)"

definition get_mcp :: "(jsstring \<times> nat) list \<Rightarrow> jsstring option \<Rightarrow> mcp_response" where
  "get_mcp transports sessionId =
     (case lookup_session transports sessionId of
        Absent \<Rightarrow> Status400_text
      | Transport t \<Rightarrow> Handled_by t
      | Inherited \<Rightarrow> Rejected_TypeError)"

definition delete_mcp :: "(jsstring \<times> nat) list \<Rightarrow> jsstring option \<Rightarrow> mcp_response" where
  "delete_mcp transports sessionId =
     (case lookup_session transports sessionId of
        Absent \<Rightarrow> Status400_text
      | Transport t \<Rightarrow> Handled_by t
      | Inherited \<Rightarrow> Status500_text)"

text \<open>The two callbacks that keep the table: a session is initialised, a transport closes.\<close>

definition onsessioninitialized ::
  "jsstring \<Rightarrow> nat \<Rightarrow> (jsstring \<times> nat) list \<Rightarrow> (jsstring \<times> nat) list" where
  "onsessioninitialized sessionId transport transports = map_set sessionId transport transports"

definition onclose :: "jsstring option \<Rightarrow> (jsstring \<times> nat) list \<Rightarrow> (jsstring \<times> nat) list" where
  "onclose sid transports =
     (case sid of
        None \<Rightarrow> transports
      | Some s \<Rightarrow>
          if lookup_session transports sid = Absent then transports
          else map_delete s transports)"

text \<open>
  For the statements about the loop: the Question is absent or still \<open>thinking\<close>, and
  the environment that does nothing during a sleep.
\<close>

definition still_thinking :: "QuestionManager \<Rightarrow> jsstring \<Rightarrow> bool" where
  "still_thinking m questionId =
     (case readAnswer m questionId of None \<Rightarrow> True | Some q \<Rightarrow> status q = Thinking)"

definition idle :: "nat \<Rightarrow> 's \<Rightarrow> 's" where
  "idle k s = s"

text \<open>Concrete inputs for the instances below.\<close>

definition example_toISOString :: "nat \<Rightarrow> jsstring" where
  "example_toISOString t = js ''2023-11-14T22:13:20.001Z''"

definition answer_in_second_sleep :: "nat \<Rightarrow> QuestionManager \<times> unit \<Rightarrow> QuestionManager \<times> unit" where
  "answer_in_second_sleep k st =
     (if k = 1 then (notifyResponseComplete (fst st) example_id (js ''4''), snd st) else st)"




definition failed_without_message :: "QuestionManager \<times> unit" where
  "failed_without_message = (notifyError example_ledger example_id [], ())"

section \<open>Properties of the Ledger\<close>

lemma map_of_map_set: "map_of (map_set k v m) = (map_of m)(k \<mapsto> v)"
  by (induction m) (auto simp: fun_eq_iff)

lemma getAnswer_submitQuestion:
  "getAnswer (snd (submitQuestion now rnd created text m)) i =
     (if i = generateQuestionId now rnd then Some (length (store m)) else getAnswer m i)"
  by (simp add: getAnswer_def submitQuestion_def map_get_def map_of_map_set Let_def)

lemma getAnswer_notifyResponseComplete [simp]:
  "getAnswer (notifyResponseComplete m i r) j = getAnswer m j"
  by (simp add: getAnswer_def notifyResponseComplete_def split: option.splits)

lemma getAnswer_notifyError [simp]:
  "getAnswer (notifyError m i e) j = getAnswer m j"
  by (simp add: getAnswer_def notifyError_def split: option.splits)

lemma deref_notifyResponseComplete:
  "getAnswer m i = Some a \<Longrightarrow>
     deref (notifyResponseComplete m i r) a =
       map_option (\<lambda>q. q\<lparr>status := Finished, response := Some r\<rparr>) (deref m a)"
  by (simp add: getAnswer_def notifyResponseComplete_def deref_def)

lemma deref_notifyError:
  "getAnswer m i = Some a \<Longrightarrow>
     deref (notifyError m i e) a =
       map_option (\<lambda>q. q\<lparr>status := Error, error := Some e\<rparr>) (deref m a)"
  by (simp add: getAnswer_def notifyError_def deref_def)

lemma readAnswer_notifyResponseComplete:
  "readAnswer (notifyResponseComplete m i r) i =
     map_option (\<lambda>q. q\<lparr>status := Finished, response := Some r\<rparr>) (readAnswer m i)"
  by (simp add: readAnswer_def deref_notifyResponseComplete split: option.splits)

lemma readAnswer_notifyError:
  "readAnswer (notifyError m i e) i =
     map_option (\<lambda>q. q\<lparr>status := Error, error := Some e\<rparr>) (readAnswer m i)"
  by (simp add: readAnswer_def deref_notifyError split: option.splits)

lemma store_submitQuestion:
  "store (snd (submitQuestion now rnd created t m)) =
     store m @ [\<lparr>id_field = generateQuestionId now rnd, status = Thinking, request = t,
                  response = None, error = None, createdAt = created\<rparr>]"
  by (simp add: submitQuestion_def Let_def)









lemma fixed_fields_resolve [simp]:
  "fixed_fields (q\<lparr>status := s, response := r\<rparr>) = fixed_fields q"
  by (simp add: fixed_fields_def)

lemma fixed_fields_fail [simp]:
  "fixed_fields (q\<lparr>status := s, error := e\<rparr>) = fixed_fields q"
  by (simp add: fixed_fields_def)





lemma example_ledger_read:
  "readAnswer example_ledger example_id =
     Some \<lparr>id_field = example_id, status = Thinking, request = js ''hi'',
            response = None, error = None, createdAt = 1700000000001\<rparr>"
  by (simp add: example_ledger_def example_id_def readAnswer_def getAnswer_def deref_def
      submitQuestion_def new_QuestionManager_def map_get_def Let_def)

lemma example_ledger_deref: "deref example_ledger 0 = Some example_question"
  by (simp add: example_ledger_def example_id_def example_question_def deref_def
      submitQuestion_def new_QuestionManager_def Let_def)

subsection \<open>Notifications for an unknown id\<close>

text \<open>
  C7: for an id that is absent from the Ledger, \<open>notifyResponseComplete\<close> and
  \<open>notifyError\<close> return the Ledger state as it was; both are total functions of the
  state, so nothing is raised.
\<close>

theorem notify_absent_noop:
  "getAnswer m i = None \<Longrightarrow>
     notifyResponseComplete m i r = m \<and> notifyError m i e = m"
  by (simp add: getAnswer_def notifyResponseComplete_def notifyError_def)

theorem notify_absent_noop_witness:
  "getAnswer new_QuestionManager (js ''q_1_a'') = None \<and>
   notifyResponseComplete new_QuestionManager (js ''q_1_a'') (js ''4'') = new_QuestionManager \<and>
   notifyError new_QuestionManager (js ''q_1_a'') (js ''boom'') = new_QuestionManager"
proof -
  have h: "getAnswer new_QuestionManager (js ''q_1_a'') = None"
    by (simp add: getAnswer_def new_QuestionManager_def map_get_def)
  show ?thesis
    using h notify_absent_noop [OF h, of "js ''4''" "js ''boom''"] by simp
qed

subsection \<open>Notifications for a Question that is already terminal\<close>

text \<open>
  C1, as the code has it: neither notification looks at \<open>status\<close>, so the last one
  wins. After \<open>notifyResponseComplete m i r\<close> on a stored Question, a second
  \<open>notifyResponseComplete\<close> leaves it \<open>finished\<close> with the second response, and a
  \<open>notifyError\<close> leaves it at \<open>error\<close> with the error stored and the response \<open>r\<close>
  still in place.
\<close>

theorem notify_after_resolve:
  "readAnswer m i = Some q \<Longrightarrow>
     readAnswer (notifyResponseComplete (notifyResponseComplete m i r) i r') i =
       Some (q\<lparr>status := Finished, response := Some r'\<rparr>) \<and>
     readAnswer (notifyError (notifyResponseComplete m i r) i e) i =
       Some (q\<lparr>status := Error, response := Some r, error := Some e\<rparr>)"
  by (simp add: readAnswer_notifyResponseComplete readAnswer_notifyError)

theorem notify_after_resolve_witness:
  "readAnswer example_ledger example_id = Some example_question \<and>
   readAnswer (notifyResponseComplete
       (notifyResponseComplete example_ledger example_id (js ''4'')) example_id (js ''5''))
     example_id = Some (example_question\<lparr>status := Finished, response := Some (js ''5'')\<rparr>) \<and>
   readAnswer (notifyError
       (notifyResponseComplete example_ledger example_id (js ''4'')) example_id (js ''boom''))
     example_id =
     Some (example_question\<lparr>status := Error, response := Some (js ''4''),
                            error := Some (js ''boom'')\<rparr>)"
proof -
  have h: "readAnswer example_ledger example_id = Some example_question"
    by (simp add: example_ledger_read example_question_def)
  show ?thesis
    by (intro conjI) (rule h, rule notify_after_resolve [OF h, THEN conjunct1],
      rule notify_after_resolve [OF h, THEN conjunct2])
qed

text \<open>
  The claim as the specification words it fails: after \<open>resolve(id, "4")\<close>, a second
  \<open>resolve(id, "5")\<close> stores \<open>"5"\<close>, and \<open>fail(id, "boom")\<close> moves the Question to
  \<open>error\<close>.
\<close>

theorem resolve_twice_counterexample:
  "map_option response
     (readAnswer (notifyResponseComplete (notifyResponseComplete example_ledger example_id (js ''4''))
        example_id (js ''5'')) example_id) = Some (Some (js ''5'')) \<and>
   js ''5'' \<noteq> js ''4'' \<and>
   map_option status
     (readAnswer (notifyError (notifyResponseComplete example_ledger example_id (js ''4''))
        example_id (js ''boom'')) example_id) = Some Error"
  by (simp add: readAnswer_notifyResponseComplete readAnswer_notifyError example_ledger_read js_def)

subsection \<open>The invariant of a stored Question\<close>




subsection \<open>What getAnswer and getAllQuestions hand out\<close>

text \<open>
  C6, as the code has it: \<open>getAnswer\<close> returns the stored object itself, and the array
  of \<open>getAllQuestions\<close> holds the same objects. A notification for that id after the
  call is seen through the reference returned before it.
\<close>

theorem returned_reference_is_live:
  "getAnswer m i = Some a \<Longrightarrow>
     a \<in> set (getAllQuestions m) \<and>
     deref (notifyResponseComplete m i r) a =
       map_option (\<lambda>q. q\<lparr>status := Finished, response := Some r\<rparr>) (deref m a) \<and>
     deref (notifyError m i e) a =
       map_option (\<lambda>q. q\<lparr>status := Error, error := Some e\<rparr>) (deref m a)"
proof (intro conjI)
  assume h: "getAnswer m i = Some a"
  then have "(i, a) \<in> set (questions m)"
    by (simp add: getAnswer_def map_get_def map_of_SomeD)
  then show "a \<in> set (getAllQuestions m)"
    by (force simp: getAllQuestions_def map_values_def)
  show "deref (notifyResponseComplete m i r) a =
       map_option (\<lambda>q. q\<lparr>status := Finished, response := Some r\<rparr>) (deref m a)"
    by (rule deref_notifyResponseComplete [OF h])
  show "deref (notifyError m i e) a =
       map_option (\<lambda>q. q\<lparr>status := Error, error := Some e\<rparr>) (deref m a)"
    by (rule deref_notifyError [OF h])
qed

lemma example_ledger_getAnswer: "getAnswer example_ledger example_id = Some 0"
  by (simp add: example_ledger_def example_id_def getAnswer_submitQuestion
      new_QuestionManager_def)

theorem returned_reference_is_live_witness:
  "getAnswer example_ledger example_id = Some 0 \<and>
   0 \<in> set (getAllQuestions example_ledger) \<and>
   deref (notifyResponseComplete example_ledger example_id (js ''4'')) 0 =
     Some (example_question\<lparr>status := Finished, response := Some (js ''4'')\<rparr>) \<and>
   deref (notifyError example_ledger example_id (js ''boom'')) 0 =
     Some (example_question\<lparr>status := Error, error := Some (js ''boom'')\<rparr>)"
  using returned_reference_is_live [OF example_ledger_getAnswer, of "js ''4''" "js ''boom''"]
  by (simp add: example_ledger_getAnswer example_ledger_deref)

text \<open>
  The claim as the specification words it fails: the Question read through the reference
  that \<open>getAnswer\<close> returned (and that \<open>getAllQuestions\<close> lists) differs before and after
  a later \<open>notifyResponseComplete\<close>.
\<close>

theorem snapshot_counterexample:
  "getAnswer example_ledger example_id = Some 0 \<and>
   getAllQuestions example_ledger = [0] \<and>
   map_option status (deref example_ledger 0) = Some Thinking \<and>
   map_option status (deref (notifyResponseComplete example_ledger example_id (js ''4'')) 0) =
     Some Finished \<and>
   deref (notifyResponseComplete example_ledger example_id (js ''4'')) 0 \<noteq>
     deref example_ledger 0"
  by (simp add: example_ledger_getAnswer deref_notifyResponseComplete example_ledger_deref
      example_question_def)
     (simp add: example_ledger_def getAllQuestions_def map_values_def submitQuestion_def
      new_QuestionManager_def Let_def)

section \<open>Properties of the front ends\<close>

lemma trim_empty_iff: "trim s = [] \<longleftrightarrow> (\<forall>c \<in> set s. is_white_space c)"
proof -
  have "(\<forall>c \<in> set (dropWhile is_white_space s). is_white_space c) \<longleftrightarrow>
        (\<forall>c \<in> set s. is_white_space c)"
  proof
    assume h: "\<forall>c \<in> set (dropWhile is_white_space s). is_white_space c"
    have "set s = set (takeWhile is_white_space s) \<union> set (dropWhile is_white_space s)"
      by (metis set_append takeWhile_dropWhile_id)
    with h show "\<forall>c \<in> set s. is_white_space c"
      by (auto dest: set_takeWhileD)
  next
    assume "\<forall>c \<in> set s. is_white_space c"
    then show "\<forall>c \<in> set (dropWhile is_white_space s). is_white_space c"
      by (auto dest: set_dropWhileD)
  qed
  then show ?thesis
    by (simp add: trim_def dropWhile_eq_Nil_conv)
qed

lemma readAnswer_submitQuestion:
  "readAnswer (snd (submitQuestion now rnd created t m)) (generateQuestionId now rnd) =
     Some \<lparr>id_field = generateQuestionId now rnd, status = Thinking, request = t,
           response = None, error = None, createdAt = created\<rparr>"
  by (simp add: readAnswer_def getAnswer_submitQuestion deref_def store_submitQuestion)

lemma fst_submitQuestion: "fst (submitQuestion now rnd created t m) = generateQuestionId now rnd"
  by (simp add: submitQuestion_def Let_def)

lemma post_question_blank:
  "trim t = [] \<Longrightarrow> post_question h now rnd created (Str t) st = (Json400, st)"
  by (simp add: post_question_def)

lemma post_question_accepts:
  "trim t \<noteq> [] \<Longrightarrow>
     post_question h now rnd created (Str t) st =
       (case h of
          None \<Rightarrow>
            (Json200_questionId (generateQuestionId now rnd),
             (snd (submitQuestion now rnd created (trim t) (fst st)), snd st))
        | Some f \<Rightarrow>
            (case f (trim t) (generateQuestionId now rnd)
                    (snd (submitQuestion now rnd created (trim t) (fst st)), snd st) of
               Returned st2 \<Rightarrow> (Json200_questionId (generateQuestionId now rnd), st2)
             | Thrown err st2 \<Rightarrow> (Json500, st2)))"
proof -
  assume h: "trim t \<noteq> []"
  then have "t \<noteq> []" by (auto simp: trim_def)
  with h show ?thesis
    by (simp add: post_question_def Let_def fst_submitQuestion
        cong: option.case_cong outcome.case_cong)
qed

lemma trim_example: "trim (js '' hi '') = js ''hi''"
  by (simp add: trim_def js_def is_white_space_def white_space_def)

lemma example_ledger_alt:
  "snd (submitQuestion 1700000000000 (js ''k3x9q2m1z'') 1700000000001 (js ''hi'')
      new_QuestionManager) = example_ledger"
  by (simp add: example_ledger_def)

lemma example_read_question: "readAnswer example_ledger example_id = Some example_question"
  by (simp add: example_ledger_read example_question_def)

subsection \<open>Submitting through the submit/poll front end\<close>

text \<open>
  C5: for every text whose trimmed form is not empty, \<open>POST /question\<close> calls
  \<open>submitQuestion\<close> with the trimmed text and answers with the id it returned (when no
  submit handler is set; with one, when the handler returns, and with status 500 when it
  throws). In the Ledger as \<open>submitQuestion\<close> leaves it, \<open>getAnswer\<close> on that id gives a
  Question with \<open>status = thinking\<close> and \<open>request\<close> equal to the trimmed text.
\<close>

theorem post_then_getAnswer:
  "trim t \<noteq> [] \<Longrightarrow>
     post_question None now rnd created (Str t) st =
       (Json200_questionId (generateQuestionId now rnd),
        (snd (submitQuestion now rnd created (trim t) (fst st)), snd st)) \<and>
     post_question (Some f) now rnd created (Str t) st =
       (case f (trim t) (generateQuestionId now rnd)
               (snd (submitQuestion now rnd created (trim t) (fst st)), snd st) of
          Returned st2 \<Rightarrow> (Json200_questionId (generateQuestionId now rnd), st2)
        | Thrown err st2 \<Rightarrow> (Json500, st2)) \<and>
     readAnswer (snd (submitQuestion now rnd created (trim t) (fst st)))
         (generateQuestionId now rnd) =
       Some \<lparr>id_field = generateQuestionId now rnd, status = Thinking, request = trim t,
             response = None, error = None, createdAt = created\<rparr>"
  by (simp add: post_question_accepts readAnswer_submitQuestion)

theorem post_then_getAnswer_witness:
  "trim (js '' hi '') \<noteq> [] \<and>
   post_question None 1700000000000 (js ''k3x9q2m1z'') 1700000000001 (Str (js '' hi ''))
       (new_QuestionManager, ()) =
     (Json200_questionId example_id, (example_ledger, ())) \<and>
   readAnswer example_ledger example_id =
     Some \<lparr>id_field = example_id, status = Thinking, request = js ''hi'',
           response = None, error = None, createdAt = 1700000000001\<rparr>"
proof -
  have h: "trim (js '' hi '') \<noteq> []"
    by (simp add: trim_example) (simp add: js_def)
  from post_then_getAnswer [OF h, of 1700000000000 "js ''k3x9q2m1z''" 1700000000001
      "(new_QuestionManager, ())" "\<lambda>t i s. Returned s"]
  show ?thesis
    using h by (simp add: trim_example example_ledger_alt example_id_def [symmetric])
qed

text \<open>
  C3, as the code has it. \<open>submitQuestion\<close> itself rejects nothing: for every text it
  stores a \<open>thinking\<close> Question and returns its id. The validation is in
  \<open>POST /question\<close>: a text that is empty or all white space is answered with status 400
  and the state is left as it was; every other text is submitted trimmed, which stores a
  \<open>thinking\<close> Question, and the answer carries its id (status 500 if the submit handler
  throws).
\<close>

theorem submit_validation:
  "readAnswer (snd (submitQuestion now rnd created t m)) (fst (submitQuestion now rnd created t m)) =
     Some \<lparr>id_field = generateQuestionId now rnd, status = Thinking, request = t,
           response = None, error = None, createdAt = created\<rparr> \<and>
   ((\<forall>c \<in> set t. is_white_space c) \<longrightarrow>
      post_question h now rnd created (Str t) st = (Json400, st)) \<and>
   (\<not> (\<forall>c \<in> set t. is_white_space c) \<longrightarrow>
      post_question h now rnd created (Str t) st =
        (case h of
           None \<Rightarrow>
             (Json200_questionId (generateQuestionId now rnd),
              (snd (submitQuestion now rnd created (trim t) (fst st)), snd st))
         | Some f \<Rightarrow>
             (case f (trim t) (generateQuestionId now rnd)
                     (snd (submitQuestion now rnd created (trim t) (fst st)), snd st) of
                Returned st2 \<Rightarrow> (Json200_questionId (generateQuestionId now rnd), st2)
              | Thrown err st2 \<Rightarrow> (Json500, st2))) \<and>
      map_option status
        (readAnswer (snd (submitQuestion now rnd created (trim t) (fst st)))
           (generateQuestionId now rnd)) = Some Thinking)"
proof (intro conjI impI)
  show "readAnswer (snd (submitQuestion now rnd created t m))
          (fst (submitQuestion now rnd created t m)) =
        Some \<lparr>id_field = generateQuestionId now rnd, status = Thinking, request = t,
              response = None, error = None, createdAt = created\<rparr>"
    by (simp add: fst_submitQuestion readAnswer_submitQuestion)
next
  assume "\<forall>c \<in> set t. is_white_space c"
  then have "trim t = []" by (simp add: trim_empty_iff)
  then show "post_question h now rnd created (Str t) st = (Json400, st)"
    by (rule post_question_blank)
next
  assume "\<not> (\<forall>c \<in> set t. is_white_space c)"
  then have ne: "trim t \<noteq> []" by (simp add: trim_empty_iff)
  show "post_question h now rnd created (Str t) st =
        (case h of
           None \<Rightarrow>
             (Json200_questionId (generateQuestionId now rnd),
              (snd (submitQuestion now rnd created (trim t) (fst st)), snd st))
         | Some f \<Rightarrow>
             (case f (trim t) (generateQuestionId now rnd)
                     (snd (submitQuestion now rnd created (trim t) (fst st)), snd st) of
                Returned st2 \<Rightarrow> (Json200_questionId (generateQuestionId now rnd), st2)
              | Thrown err st2 \<Rightarrow> (Json500, st2)))"
    by (rule post_question_accepts [OF ne])
  show "map_option status
        (readAnswer (snd (submitQuestion now rnd created (trim t) (fst st)))
           (generateQuestionId now rnd)) = Some Thinking"
    by (simp add: readAnswer_submitQuestion)
qed

theorem submit_validation_witness:
  "trim (js ''  '') = [] \<and>
   post_question None 1700000000000 (js ''k3x9q2m1z'') 1700000000001 (Str (js ''  ''))
       (new_QuestionManager, ()) = (Json400, (new_QuestionManager, ())) \<and>
   trim (js '' hi '') = js ''hi'' \<and>
   post_question None 1700000000000 (js ''k3x9q2m1z'') 1700000000001 (Str (js '' hi ''))
       (new_QuestionManager, ()) = (Json200_questionId example_id, (example_ledger, ())) \<and>
   map_option status (readAnswer example_ledger example_id) = Some Thinking"
proof -
  have blank: "\<forall>c \<in> set (js ''  ''). is_white_space c"
    by (simp add: js_def is_white_space_def white_space_def)
  have nonblank: "\<not> (\<forall>c \<in> set (js '' hi ''). is_white_space c)"
    by (simp add: js_def is_white_space_def white_space_def)
  note a = submit_validation [of 1700000000000 "js ''k3x9q2m1z''" 1700000000001 "js ''  ''"
      new_QuestionManager None "(new_QuestionManager, ())", THEN conjunct2, THEN conjunct1,
      THEN mp, OF blank]
  note b = submit_validation [of 1700000000000 "js ''k3x9q2m1z''" 1700000000001 "js '' hi ''"
      new_QuestionManager None "(new_QuestionManager, ())", THEN conjunct2, THEN conjunct2,
      THEN mp, OF nonblank]
  have "trim (js ''  '') = []"
    using blank by (simp only: trim_empty_iff)
  with a b show ?thesis
    by (simp add: trim_example example_ledger_alt example_id_def [symmetric])
qed

text \<open>
  The claim as the specification words it fails for the Ledger's own \<open>submit\<close>: the
  empty text and a text of two blanks are both stored as \<open>thinking\<close> Questions.
\<close>

theorem empty_text_counterexample:
  "readAnswer
     (snd (submitQuestion 1700000000000 (js ''k3x9q2m1z'') 1700000000001 [] new_QuestionManager))
     (fst (submitQuestion 1700000000000 (js ''k3x9q2m1z'') 1700000000001 [] new_QuestionManager)) =
   Some \<lparr>id_field = example_id, status = Thinking, request = [],
         response = None, error = None, createdAt = 1700000000001\<rparr> \<and>
   readAnswer
     (snd (submitQuestion 1700000000000 (js ''k3x9q2m1z'') 1700000000001 (js ''  '')
        new_QuestionManager)) example_id =
   Some \<lparr>id_field = example_id, status = Thinking, request = js ''  '',
         response = None, error = None, createdAt = 1700000000001\<rparr>"
  by (simp add: fst_submitQuestion readAnswer_submitQuestion example_id_def)

subsection \<open>The ask tool\<close>

text \<open>
  C10: with no submit handler set, \<open>ask\<close> throws the routing error after
  \<open>submitQuestion\<close> has run; the state it leaves is the one \<open>submitQuestion\<close> produced,
  in which \<open>getAnswer\<close> on the new id gives the Question with \<open>status = thinking\<close>.
\<close>

theorem no_handler_keeps_question:
  "ask toISOString env None now rnd created t stream_arg st =
     (ToolError (js ''MCP server not properly integrated with TUI - no submit handler set''),
      (snd (submitQuestion now rnd created t (fst st)), snd st), 0) \<and>
   readAnswer (snd (submitQuestion now rnd created t (fst st))) (generateQuestionId now rnd) =
     Some \<lparr>id_field = generateQuestionId now rnd, status = Thinking, request = t,
           response = None, error = None, createdAt = created\<rparr>"
  by (simp add: ask_def Let_def readAnswer_submitQuestion)

theorem no_handler_keeps_question_witness:
  "ask example_toISOString idle None 1700000000000 (js ''k3x9q2m1z'') 1700000000001 (js ''hi'')
       None (new_QuestionManager, ()) =
     (ToolError (js ''MCP server not properly integrated with TUI - no submit handler set''),
      (example_ledger, ()), 0) \<and>
   readAnswer example_ledger example_id = Some example_question"
  using no_handler_keeps_question [of example_toISOString idle 1700000000000 "js ''k3x9q2m1z''"
      1700000000001 "js ''hi''" None "(new_QuestionManager, ())"]
  by (simp add: example_ledger_alt example_id_def [symmetric] example_question_def)

lemma poll_once_None_iff:
  "poll_once fmt stream qid r m = None \<longleftrightarrow> still_thinking m qid"
proof (cases "readAnswer m qid")
  case None
  then show ?thesis by (simp add: poll_once_def still_thinking_def)
next
  case (Some q)
  then show ?thesis
    by (cases "status q") (simp_all add: poll_once_def still_thinking_def)
qed

lemma poll_once_exit:
  "readAnswer m qid = Some q \<Longrightarrow> status q \<noteq> Thinking \<Longrightarrow>
     poll_once fmt stream qid r m = Some (poll_exit fmt stream qid q r)"
  by (cases "status q") (simp_all add: poll_once_def)

lemma poll_loop_step:
  "r < maxRetries \<Longrightarrow> still_thinking (fst st) qid \<Longrightarrow>
     poll_loop fmt env stream qid r (st, w) =
       poll_loop fmt env stream qid (Suc r) (env r st, w + pollInterval)"
  using poll_once_None_iff [of fmt stream qid r "fst st"]
  by (simp add: poll_loop.simps [of fmt env stream qid r st w])

lemma poll_loop_exit:
  "r < maxRetries \<Longrightarrow> readAnswer (fst st) qid = Some q \<Longrightarrow> status q \<noteq> Thinking \<Longrightarrow>
     poll_loop fmt env stream qid r (st, w) = (poll_exit fmt stream qid q r, st, w)"
  by (simp add: poll_loop.simps [of fmt env stream qid r st w] poll_once_exit)

lemma poll_loop_timeout:
  "poll_loop fmt env stream qid maxRetries (st, w) =
     (ToolError (js ''TUI response timeout after 8 minutes''), st, w)"
  by (simp add: poll_loop.simps [of fmt env stream qid maxRetries st w])

lemma poll_loop_skip:
  "k \<le> maxRetries \<Longrightarrow> \<forall>j<k. still_thinking (fst (state_at env st j)) qid \<Longrightarrow>
     poll_loop fmt env stream qid 0 (st, 0) =
       poll_loop fmt env stream qid k (state_at env st k, k * pollInterval)"
proof (induction k)
  case 0
  show ?case by simp
next
  case (Suc k)
  from Suc.prems have k: "k < maxRetries" and
    th: "still_thinking (fst (state_at env st k)) qid" and
    before: "\<forall>j<k. still_thinking (fst (state_at env st j)) qid"
    by simp_all
  from k before have "poll_loop fmt env stream qid 0 (st, 0) =
      poll_loop fmt env stream qid k (state_at env st k, k * pollInterval)"
    by (simp add: Suc.IH)
  also have "\<dots> = poll_loop fmt env stream qid (Suc k)
      (env k (state_at env st k), k * pollInterval + pollInterval)"
    by (rule poll_loop_step [OF k th])
  finally show ?case by (simp add: add.commute)
qed

lemma ask_polls:
  "f t (generateQuestionId now rnd)
       (snd (submitQuestion now rnd created t (fst st)), snd st) = Returned st2 \<Longrightarrow>
     ask fmt env (Some f) now rnd created t stream_arg st =
       poll_loop fmt env (case stream_arg of None \<Rightarrow> True | Some b \<Rightarrow> b)
         (generateQuestionId now rnd) 0 (st2, 0)"
  by (simp add: ask_def Let_def fst_submitQuestion)

lemma still_thinking_example: "still_thinking example_ledger example_id"
  by (simp add: still_thinking_def example_read_question example_question_def)

lemma state_at_idle: "state_at idle st k = st"
  by (induction k) (simp_all add: idle_def)

lemma poll_loop_first_terminal:
  assumes "\<forall>j<k. still_thinking (fst (state_at env st j)) qid"
  shows
    "(k < maxRetries \<and> readAnswer (fst (state_at env st k)) qid = Some q \<and> status q = Finished \<longrightarrow>
        poll_loop fmt env stream qid 0 (st, 0) =
          (ToolContent (answer_text fmt stream qid q k), state_at env st k, k * pollInterval)) \<and>
     (k < maxRetries \<and> readAnswer (fst (state_at env st k)) qid = Some q \<and> status q = Error \<longrightarrow>
        poll_loop fmt env stream qid 0 (st, 0) =
          (ToolError (or_default (error q) (js ''TUI processing failed'')),
           state_at env st k, k * pollInterval)) \<and>
     (k = maxRetries \<longrightarrow>
        poll_loop fmt env stream qid 0 (st, 0) =
          (ToolError (js ''TUI response timeout after 8 minutes''),
           state_at env st k, 240 * 2000)) \<and>
     maxRetries = 240 \<and> pollInterval = 2000"
proof (intro conjI impI)
  assume h: "k < maxRetries \<and> readAnswer (fst (state_at env st k)) qid = Some q \<and>
             status q = Finished"
  then have "poll_loop fmt env stream qid 0 (st, 0) =
      poll_loop fmt env stream qid k (state_at env st k, k * pollInterval)"
    using assms by (simp add: poll_loop_skip)
  also have "\<dots> = (poll_exit fmt stream qid q k, state_at env st k, k * pollInterval)"
    using h by (simp add: poll_loop_exit)
  finally show "poll_loop fmt env stream qid 0 (st, 0) =
      (ToolContent (answer_text fmt stream qid q k), state_at env st k, k * pollInterval)"
    using h by (simp add: poll_exit_def)
next
  assume h: "k < maxRetries \<and> readAnswer (fst (state_at env st k)) qid = Some q \<and>
             status q = Error"
  then have "poll_loop fmt env stream qid 0 (st, 0) =
      poll_loop fmt env stream qid k (state_at env st k, k * pollInterval)"
    using assms by (simp add: poll_loop_skip)
  also have "\<dots> = (poll_exit fmt stream qid q k, state_at env st k, k * pollInterval)"
    using h by (simp add: poll_loop_exit)
  finally show "poll_loop fmt env stream qid 0 (st, 0) =
      (ToolError (or_default (error q) (js ''TUI processing failed'')),
       state_at env st k, k * pollInterval)"
    using h by (simp add: poll_exit_def)
next
  assume h: "k = maxRetries"
  then have "poll_loop fmt env stream qid 0 (st, 0) =
      poll_loop fmt env stream qid k (state_at env st k, k * pollInterval)"
    using assms by (simp add: poll_loop_skip)
  also have "\<dots> = (ToolError (js ''TUI response timeout after 8 minutes''),
      state_at env st k, k * pollInterval)"
    unfolding h by (rule poll_loop_timeout)
  finally show "poll_loop fmt env stream qid 0 (st, 0) =
      (ToolError (js ''TUI response timeout after 8 minutes''), state_at env st k, 240 * 2000)"
    using h by (simp add: maxRetries_def pollInterval_def)
next
  show "maxRetries = 240" by (simp add: maxRetries_def)
next
  show "pollInterval = 2000" by (simp add: pollInterval_def)
qed

lemma answer_text_finished:
  "status q = Finished \<Longrightarrow>
     answer_text fmt stream qid q k =
       ([0xD83C, 0xDFAF] @ js '' Gemini TUI Response '' @
       (if stream then js ''[STREAMED]'' else js ''[NON-STREAMED]'') @ js '':'' @
       [0x000A, 0x000A] @
       (case response q of
          None \<Rightarrow> js ''No response received''
        | Some r \<Rightarrow> if r = [] then js ''No response received'' else r) @
       [0x000A, 0x000A] @ [0xD83D, 0xDCCA] @ js '' Metadata:'' @ [0x000A] @
       js ''- Question ID: '' @ qid @ [0x000A] @
       js ''- Status: finished'' @ [0x000A] @
       js ''- Created: '' @ fmt (createdAt q) @ [0x000A] @
       js ''- Polling time: '' @ number_toString (k * 2) @ js '' seconds'' @ [0x000A] @
       js ''- Integration: Direct TUI Integration via MCP'')"
  by (simp add: answer_text_def Let_def or_default_def newline_def js_def split: option.splits)

lemma example_id_value: "example_id = js ''q_1700000000000_k3x9q2m1z''"
  by (simp add: example_id_def generateQuestionId_def number_toString.simps js_def)

lemma number_toString_small: "number_toString 0 = js ''0'' \<and> number_toString 4 = js ''4''"
  by (simp add: number_toString.simps js_def)

text \<open>
  C4, as the code has it. The loop polls at most \<open>maxRetries = 240\<close> times and asks for
  a sleep of \<open>pollInterval = 2000\<close> milliseconds after each poll that finds the Question
  absent or \<open>thinking\<close>. If poll \<open>k\<close> is the first to find it terminal: a \<open>finished\<close>
  Question gives the answer text (the response, or \<open>No response received\<close> when the
  response is empty, with id, status, creation time and \<open>2 * k\<close> seconds); an \<open>error\<close>
  Question gives a failure whose message is the stored error, or
  \<open>TUI processing failed\<close> when the stored error is empty. If all 240 polls find it
  \<open>thinking\<close>, the failure is the timeout, after 480000 milliseconds of sleep.
\<close>

theorem poll_loop_exits:
  assumes "\<forall>j<k. still_thinking (fst (state_at env st j)) qid"
  shows
    "(k < 240 \<and> readAnswer (fst (state_at env st k)) qid = Some q \<and> status q = Finished \<longrightarrow>
        poll_loop fmt env stream qid 0 (st, 0) =
          (ToolContent
             ([0xD83C, 0xDFAF] @ js '' Gemini TUI Response '' @
              (if stream then js ''[STREAMED]'' else js ''[NON-STREAMED]'') @ js '':'' @
              [0x000A, 0x000A] @
              (case response q of
                 None \<Rightarrow> js ''No response received''
               | Some r \<Rightarrow> if r = [] then js ''No response received'' else r) @
              [0x000A, 0x000A] @ [0xD83D, 0xDCCA] @ js '' Metadata:'' @ [0x000A] @
              js ''- Question ID: '' @ qid @ [0x000A] @
              js ''- Status: finished'' @ [0x000A] @
              js ''- Created: '' @ fmt (createdAt q) @ [0x000A] @
              js ''- Polling time: '' @ number_toString (k * 2) @ js '' seconds'' @ [0x000A] @
              js ''- Integration: Direct TUI Integration via MCP''),
           state_at env st k, k * 2000)) \<and>
     (k < 240 \<and> readAnswer (fst (state_at env st k)) qid = Some q \<and> status q = Error \<longrightarrow>
        poll_loop fmt env stream qid 0 (st, 0) =
          (ToolError
             (case error q of
                 None \<Rightarrow> js ''TUI processing failed''
               | Some e \<Rightarrow> if e = [] then js ''TUI processing failed'' else e),
           state_at env st k, k * 2000)) \<and>
     (k = 240 \<longrightarrow>
        poll_loop fmt env stream qid 0 (st, 0) =
          (ToolError (js ''TUI response timeout after 8 minutes''),
           state_at env st 240, 480000)) \<and>
     maxRetries = 240 \<and> pollInterval = 2000"
proof -
  note aux = poll_loop_first_terminal [OF assms, of q fmt stream]
  have m: "maxRetries = 240" and p: "pollInterval = 2000"
    by (simp_all add: maxRetries_def pollInterval_def)
  show ?thesis
  proof (intro conjI impI)
    assume h: "k < 240 \<and> readAnswer (fst (state_at env st k)) qid = Some q \<and>
               status q = Finished"
    with aux [THEN conjunct1] m p
    have "poll_loop fmt env stream qid 0 (st, 0) =
        (ToolContent (answer_text fmt stream qid q k), state_at env st k, k * 2000)"
      by simp
    with h show "poll_loop fmt env stream qid 0 (st, 0) =
          (ToolContent
             ([0xD83C, 0xDFAF] @ js '' Gemini TUI Response '' @
              (if stream then js ''[STREAMED]'' else js ''[NON-STREAMED]'') @ js '':'' @
              [0x000A, 0x000A] @
              (case response q of
                 None \<Rightarrow> js ''No response received''
               | Some r \<Rightarrow> if r = [] then js ''No response received'' else r) @
              [0x000A, 0x000A] @ [0xD83D, 0xDCCA] @ js '' Metadata:'' @ [0x000A] @
              js ''- Question ID: '' @ qid @ [0x000A] @
              js ''- Status: finished'' @ [0x000A] @
              js ''- Created: '' @ fmt (createdAt q) @ [0x000A] @
              js ''- Polling time: '' @ number_toString (k * 2) @ js '' seconds'' @ [0x000A] @
              js ''- Integration: Direct TUI Integration via MCP''),
           state_at env st k, k * 2000)"
      by (simp only: answer_text_finished)
  next
    assume h: "k < 240 \<and> readAnswer (fst (state_at env st k)) qid = Some q \<and>
               status q = Error"
    with aux [THEN conjunct2, THEN conjunct1] m p
    have "poll_loop fmt env stream qid 0 (st, 0) =
        (ToolError (or_default (error q) (js ''TUI processing failed'')),
         state_at env st k, k * 2000)"
      by simp
    then show "poll_loop fmt env stream qid 0 (st, 0) =
          (ToolError
             (case error q of
                 None \<Rightarrow> js ''TUI processing failed''
               | Some e \<Rightarrow> if e = [] then js ''TUI processing failed'' else e),
           state_at env st k, k * 2000)"
      by (simp add: or_default_def)
  next
    assume h: "k = 240"
    with aux [THEN conjunct2, THEN conjunct2, THEN conjunct1] m
    show "poll_loop fmt env stream qid 0 (st, 0) =
          (ToolError (js ''TUI response timeout after 8 minutes''),
           state_at env st 240, 480000)"
      by simp
  next
    show "maxRetries = 240" by (rule m)
  next
    show "pollInterval = 2000" by (rule p)
  qed
qed

theorem poll_loop_exits_witness:
  "poll_loop example_toISOString answer_in_second_sleep True example_id 0
       ((example_ledger, ()), 0) =
     (ToolContent
        ([0xD83C, 0xDFAF] @ js '' Gemini TUI Response [STREAMED]:'' @ [0x000A, 0x000A] @
         js ''4'' @ [0x000A, 0x000A] @ [0xD83D, 0xDCCA] @ js '' Metadata:'' @ [0x000A] @
         js ''- Question ID: q_1700000000000_k3x9q2m1z'' @ [0x000A] @
         js ''- Status: finished'' @ [0x000A] @
         js ''- Created: 2023-11-14T22:13:20.001Z'' @ [0x000A] @
         js ''- Polling time: 4 seconds'' @ [0x000A] @
         js ''- Integration: Direct TUI Integration via MCP''),
      (notifyResponseComplete example_ledger example_id (js ''4''), ()), 4000) \<and>
   poll_loop example_toISOString idle False example_id 0
       ((notifyResponseComplete example_ledger example_id [], ()), 0) =
     (ToolContent
        ([0xD83C, 0xDFAF] @ js '' Gemini TUI Response [NON-STREAMED]:'' @ [0x000A, 0x000A] @
         js ''No response received'' @ [0x000A, 0x000A] @ [0xD83D, 0xDCCA] @ js '' Metadata:'' @ [0x000A] @
         js ''- Question ID: q_1700000000000_k3x9q2m1z'' @ [0x000A] @
         js ''- Status: finished'' @ [0x000A] @
         js ''- Created: 2023-11-14T22:13:20.001Z'' @ [0x000A] @
         js ''- Polling time: 0 seconds'' @ [0x000A] @
         js ''- Integration: Direct TUI Integration via MCP''),
      (notifyResponseComplete example_ledger example_id [], ()), 0) \<and>
   poll_loop example_toISOString idle True example_id 0
       ((notifyError example_ledger example_id (js ''boom''), ()), 0) =
     (ToolError (js ''boom''), (notifyError example_ledger example_id (js ''boom''), ()), 0) \<and>
   poll_loop example_toISOString idle True example_id 0 ((example_ledger, ()), 0) =
     (ToolError (js ''TUI response timeout after 8 minutes''), (example_ledger, ()), 480000)"
proof (intro conjI)
  have s0: "state_at answer_in_second_sleep (example_ledger, ()) 0 = (example_ledger, ())"
    by simp
  have s1: "state_at answer_in_second_sleep (example_ledger, ()) (Suc 0) = (example_ledger, ())"
    by (simp add: answer_in_second_sleep_def)
  have s2: "state_at answer_in_second_sleep (example_ledger, ()) 2 =
      (notifyResponseComplete example_ledger example_id (js ''4''), ())"
    using s1 by (simp add: numeral_2_eq_2 answer_in_second_sleep_def)
  have before: "\<forall>j<2. still_thinking
      (fst (state_at answer_in_second_sleep (example_ledger, ()) j)) example_id"
  proof (intro allI impI)
    fix j :: nat
    assume "j < 2"
    then have "j = 0 \<or> j = Suc 0" by arith
    then show "still_thinking
        (fst (state_at answer_in_second_sleep (example_ledger, ()) j)) example_id"
      using s0 s1 still_thinking_example by auto
  qed
  have fin: "(2::nat) < 240 \<and>
     readAnswer (fst (state_at answer_in_second_sleep (example_ledger, ()) 2)) example_id =
       Some (example_question\<lparr>status := Finished, response := Some (js ''4'')\<rparr>) \<and>
     status (example_question\<lparr>status := Finished, response := Some (js ''4'')\<rparr>) = Finished"
    by (simp add: s2 readAnswer_notifyResponseComplete example_read_question)
  have "poll_loop example_toISOString answer_in_second_sleep True example_id 0
       ((example_ledger, ()), 0) =
     (ToolContent
        ([0xD83C, 0xDFAF] @ js '' Gemini TUI Response '' @ js ''[STREAMED]'' @ js '':'' @
         [0x000A, 0x000A] @ js ''4'' @
         [0x000A, 0x000A] @ [0xD83D, 0xDCCA] @ js '' Metadata:'' @ [0x000A] @
         js ''- Question ID: '' @ example_id @ [0x000A] @
         js ''- Status: finished'' @ [0x000A] @
         js ''- Created: '' @ js ''2023-11-14T22:13:20.001Z'' @ [0x000A] @
         js ''- Polling time: '' @ number_toString 4 @ js '' seconds'' @ [0x000A] @
         js ''- Integration: Direct TUI Integration via MCP''),
      (notifyResponseComplete example_ledger example_id (js ''4''), ()), 4000)"
    using poll_loop_exits [OF before, THEN conjunct1, THEN mp, OF fin,
        of example_toISOString True]
    by (simp add: s2 example_question_def example_toISOString_def) (simp add: js_def)
  then show "poll_loop example_toISOString answer_in_second_sleep True example_id 0
       ((example_ledger, ()), 0) =
     (ToolContent
        ([0xD83C, 0xDFAF] @ js '' Gemini TUI Response [STREAMED]:'' @ [0x000A, 0x000A] @
         js ''4'' @ [0x000A, 0x000A] @ [0xD83D, 0xDCCA] @ js '' Metadata:'' @ [0x000A] @
         js ''- Question ID: q_1700000000000_k3x9q2m1z'' @ [0x000A] @
         js ''- Status: finished'' @ [0x000A] @
         js ''- Created: 2023-11-14T22:13:20.001Z'' @ [0x000A] @
         js ''- Polling time: 4 seconds'' @ [0x000A] @
         js ''- Integration: Direct TUI Integration via MCP''),
      (notifyResponseComplete example_ledger example_id (js ''4''), ()), 4000)"
    by (simp add: example_id_value number_toString_small) (simp add: js_def)
next
  have none: "\<forall>j<0. still_thinking
      (fst (state_at idle (notifyResponseComplete example_ledger example_id [], ()) j))
      example_id"
    by simp
  have fin: "(0::nat) < 240 \<and>
     readAnswer (fst (state_at idle (notifyResponseComplete example_ledger example_id [], ()) 0))
       example_id = Some (example_question\<lparr>status := Finished, response := Some []\<rparr>) \<and>
     status (example_question\<lparr>status := Finished, response := Some []\<rparr>) = Finished"
    by (simp add: readAnswer_notifyResponseComplete example_read_question)
  have "poll_loop example_toISOString idle False example_id 0
       ((notifyResponseComplete example_ledger example_id [], ()), 0) =
     (ToolContent
        ([0xD83C, 0xDFAF] @ js '' Gemini TUI Response '' @ js ''[NON-STREAMED]'' @ js '':'' @
         [0x000A, 0x000A] @ js ''No response received'' @
         [0x000A, 0x000A] @ [0xD83D, 0xDCCA] @ js '' Metadata:'' @ [0x000A] @
         js ''- Question ID: '' @ example_id @ [0x000A] @
         js ''- Status: finished'' @ [0x000A] @
         js ''- Created: '' @ js ''2023-11-14T22:13:20.001Z'' @ [0x000A] @
         js ''- Polling time: '' @ number_toString 0 @ js '' seconds'' @ [0x000A] @
         js ''- Integration: Direct TUI Integration via MCP''),
      (notifyResponseComplete example_ledger example_id [], ()), 0)"
    using poll_loop_exits [OF none, THEN conjunct1, THEN mp, OF fin,
        of example_toISOString False]
    by (simp add: example_question_def example_toISOString_def)
  then show "poll_loop example_toISOString idle False example_id 0
       ((notifyResponseComplete example_ledger example_id [], ()), 0) =
     (ToolContent
        ([0xD83C, 0xDFAF] @ js '' Gemini TUI Response [NON-STREAMED]:'' @ [0x000A, 0x000A] @
         js ''No response received'' @ [0x000A, 0x000A] @ [0xD83D, 0xDCCA] @ js '' Metadata:'' @ [0x000A] @
         js ''- Question ID: q_1700000000000_k3x9q2m1z'' @ [0x000A] @
         js ''- Status: finished'' @ [0x000A] @
         js ''- Created: 2023-11-14T22:13:20.001Z'' @ [0x000A] @
         js ''- Polling time: 0 seconds'' @ [0x000A] @
         js ''- Integration: Direct TUI Integration via MCP''),
      (notifyResponseComplete example_ledger example_id [], ()), 0)"
    by (simp add: example_id_value number_toString_small) (simp add: js_def)
next
  have none: "\<forall>j<0. still_thinking
      (fst (state_at idle (notifyError example_ledger example_id (js ''boom''), ()) j)) example_id"
    by simp
  have failed: "(0::nat) < 240 \<and>
     readAnswer (fst (state_at idle (notifyError example_ledger example_id (js ''boom''), ()) 0))
       example_id = Some (example_question\<lparr>status := Error, error := Some (js ''boom'')\<rparr>) \<and>
     status (example_question\<lparr>status := Error, error := Some (js ''boom'')\<rparr>) = Error"
    by (simp add: readAnswer_notifyError example_read_question)
  from poll_loop_exits [OF none, THEN conjunct2, THEN conjunct1, THEN mp, OF failed]
  show "poll_loop example_toISOString idle True example_id 0
       ((notifyError example_ledger example_id (js ''boom''), ()), 0) =
     (ToolError (js ''boom''), (notifyError example_ledger example_id (js ''boom''), ()), 0)"
    by (simp add: js_def)
next
  have never: "\<forall>j<240. still_thinking
      (fst (state_at idle (example_ledger, ()) j)) example_id"
    by (simp add: state_at_idle still_thinking_example)
  from poll_loop_exits [OF never, THEN conjunct2, THEN conjunct2, THEN conjunct1, THEN mp,
      OF refl]
  show "poll_loop example_toISOString idle True example_id 0 ((example_ledger, ()), 0) =
     (ToolError (js ''TUI response timeout after 8 minutes''), (example_ledger, ()), 480000)"
    by (simp add: state_at_idle)
qed

text \<open>
  The claim as the specification words it fails where the stored error is the empty
  string: the failure then carries \<open>TUI processing failed\<close>, not the stored error.
\<close>

theorem empty_error_counterexample:
  "map_option error (readAnswer (fst failed_without_message) example_id) = Some (Some []) \<and>
   poll_loop example_toISOString idle True example_id 0 (failed_without_message, 0) =
     (ToolError (js ''TUI processing failed''), failed_without_message, 0) \<and>
   js ''TUI processing failed'' \<noteq> []"
proof (intro conjI)
  have r: "readAnswer (fst failed_without_message) example_id =
      Some (example_question\<lparr>status := Error, error := Some []\<rparr>)"
    by (simp add: failed_without_message_def readAnswer_notifyError example_read_question)
  then show "map_option error (readAnswer (fst failed_without_message) example_id) =
      Some (Some [])"
    by simp
  have "poll_loop example_toISOString idle True example_id 0 (failed_without_message, 0) =
      (poll_exit example_toISOString True example_id
         (example_question\<lparr>status := Error, error := Some []\<rparr>) 0,
       failed_without_message, 0)"
    by (rule poll_loop_exit [OF _ r]) (simp_all add: maxRetries_def)
  then show "poll_loop example_toISOString idle True example_id 0 (failed_without_message, 0) =
     (ToolError (js ''TUI processing failed''), failed_without_message, 0)"
    by (simp add: poll_exit_def or_default_def)
  show "js ''TUI processing failed'' \<noteq> []"
    by (simp add: js_def)
qed

subsection \<open>The active-question marker\<close>


lemma marker_after_submit:
  "map_get (pendingQuestions t) (js ''current'') = Some p \<Longrightarrow>
   buffer_setText p txt w = Returned w1 \<Longrightarrow>
     currentQuestionId (fst (outcome_state (TuiIntegration_submitQuestion txt q (t, w)))) = Some q"
  by (simp add: TuiIntegration_submitQuestion_def Let_def outcome_state_def ending_with_def
      split: outcome.splits)






subsection \<open>Requests for a session that is not in the table\<close>

lemma absent_session_client_error:
  "map_of transports s = None \<Longrightarrow> s \<notin> set object_prototype_properties \<Longrightarrow>
     get_mcp transports (Some s) = Status400_text \<and>
     delete_mcp transports (Some s) = Status400_text \<and>
     post_mcp transports (Some s) isInitializeRequest =
       (if s = [] \<and> isInitializeRequest then Session_created else Status400_json)"
  by (simp add: get_mcp_def post_mcp_def delete_mcp_def lookup_session_def get_property_def)

text \<open>
  C8 does not hold of the code for session ids that name a member of
  \<open>Object.prototype\<close>. With an empty table and the header \<open>mcp-session-id: constructor\<close>,
  the guard \<open>this.transports[sessionId]\<close> is truthy, the value has no \<open>handleRequest\<close>,
  and the call throws: \<open>GET /mcp\<close> ends in a rejected promise that nothing catches,
  \<open>POST /mcp\<close> and \<open>DELETE /mcp\<close> answer with status 500. (For every other absent id that is
  not the empty string the three routes answer with status 400,
  \<open>absent_session_client_error\<close>.)
\<close>

theorem prototype_name_as_session_id:
  "map_of ([] :: (jsstring \<times> nat) list) (js ''constructor'') = None \<and>
   get_mcp [] (Some (js ''constructor'')) = Rejected_TypeError \<and>
   post_mcp [] (Some (js ''constructor'')) False = Status500_json \<and>
   delete_mcp [] (Some (js ''constructor'')) = Status500_text"
  by (simp add: get_mcp_def post_mcp_def delete_mcp_def lookup_session_def get_property_def
      object_prototype_properties_def js_def)

end
